theory Spec2Isabelle
  imports Main "HOL-Library.Word" "HOL-Library.Sublist"
begin

unbundle bit_operations_syntax

section \<open>Shared data\<close>

text \<open>
  Go's fixed-size byte arrays are words of the same width, read big-endian (element 0 of
  the array is the most significant byte): \<open>common.Hash\<close> and \<open>[32]byte\<close> are
  \<open>256 word\<close>, \<open>common.Address\<close> is \<open>160 word\<close>. Equality of two arrays
  (\<open>==\<close>, byte for byte) is equality of the words. A byte slice is a list of bytes.
\<close>

type_synonym byte = "8 word"
type_synonym bytes = "byte list"
type_synonym hash = "256 word"
type_synonym address = "160 word"

text \<open>
  An \<open>error\<close> value handed back by a collaborator (an RPC client, the blob decoder,
  the transaction sender), identified by what its \<open>Error()\<close> method prints.
\<close>

datatype go_error = Error (Error_string: string)

text \<open>A call either returns or panics.\<close>

datatype 'a outcome = Returns 'a | Panics

text \<open>
  \<open>bindings.TaikoDataBlockMetadata\<close>: the fields that \<open>Fetch\<close> reads. The
  other fields of the binding are carried along untouched by every function here.
\<close>

record TaikoDataBlockMetadata =
  L1Height :: "64 word"
  BlobHash :: hash
  BlobUsed :: bool

section \<open>driver/txlist\_fetcher/blob.go\<close>

text \<open>One beacon sidecar, as the beacon API delivers it: two hex strings.\<close>

record Sidecar =
  KzgCommitment :: string
  Blob :: string

text \<open>
  Modelled from the spec: \<open>errBlobUnused\<close> and \<open>errSidecarNotFound\<close>, the two
  package-level errors of the fetcher. The source returns them by name; they are
  declared in another file of the package, and sections 4.1 and 7 of the spec name them
  as two kinds of error. Being unexported, they cannot come from a collaborator: an
  error of the beacon client or of the blob decoder is passed through as
  \<open>Propagated\<close>.
\<close>

datatype fetch_error = errBlobUnused | errSidecarNotFound | Propagated go_error

text \<open>
  What \<open>Fetch\<close> does that can be observed from outside: the beacon read and the log
  lines, in program order.
\<close>

datatype fetch_event =
    GetBlobs_call int
  | Log_Fetch_sidecars "64 word" nat
  | Log_Block_sidecar nat string hash

text \<open>
  The collaborators of \<open>BlobFetcher\<close>, none of which is part of the file:
  \<^item> \<open>GetBlobs\<close> is \<open>d.rpc.L1Beacon.GetBlobs(ctx, slot)\<close>, the network read;
  \<^item> \<open>FromHex\<close> is go-ethereum's \<open>common.FromHex\<close>;
  \<^item> \<open>Sha256\<close> is the digest that \<open>sha256.New()\<close> computes of the bytes written;
  \<^item> \<open>Blob_ToData\<close> is \<open>rpc.Blob(b).ToData()\<close>: the conversion of the decoded
    bytes to the blob type followed by the blob decoder. Both are declared in
    \<open>pkg/rpc\<close>; the conversion may panic there, so the result is an outcome.
\<close>

record BlobFetcher =
  GetBlobs :: "int \<Rightarrow> go_error + Sidecar list"
  FromHex :: "string \<Rightarrow> bytes"
  Sha256 :: "bytes \<Rightarrow> hash"
  Blob_ToData :: "bytes \<Rightarrow> (go_error + bytes) outcome"

text \<open>
  \<open>kzg4844.Commitment(b)\<close> converts a slice to the array type \<open>[48]byte\<close>. Go
  panics when the slice is shorter than the array and keeps the first 48 bytes otherwise.
\<close>

definition kzg4844_Commitment :: "bytes \<Rightarrow> bytes option" where
  "kzg4844_Commitment b = (if length b < 48 then None else Some (take 48 b))"

text \<open>
  \<open>kzg4844.CalcBlobHashV1(hasher, &commitment)\<close>: the digest of the commitment with
  its first byte overwritten by the version byte \<open>0x01\<close>.
\<close>

definition CalcBlobHashV1 :: "(bytes \<Rightarrow> hash) \<Rightarrow> bytes \<Rightarrow> hash" where
  "CalcBlobHashV1 hasher commit = (hasher commit AND mask 248) OR push_bit 248 1"

text \<open>
  Lines 59 and 60: \<open>rpc.Blob(common.FromHex(sidecar.Blob)).ToData()\<close>, returned as
  it is (an error of the decoder is passed through).
\<close>

definition decoded_from :: "BlobFetcher \<Rightarrow> Sidecar \<Rightarrow> (fetch_error + bytes) outcome" where
  "decoded_from d sidecar =
     (case Blob_ToData d (FromHex d (Blob sidecar)) of
        Panics \<Rightarrow> Panics
      | Returns (Inl err) \<Rightarrow> Returns (Inl (Propagated err))
      | Returns (Inr data) \<Rightarrow> Returns (Inr data))"

text \<open>
  The loop over the sidecars (lines 46 to 62), from index \<open>i\<close> on.
  \<open>common.BytesToHash(meta.BlobHash[:])\<close> copies a 32-byte array into a 32-byte
  hash, so it is the array itself.
\<close>

fun match_sidecars ::
  "BlobFetcher \<Rightarrow> TaikoDataBlockMetadata \<Rightarrow> nat \<Rightarrow> Sidecar list
    \<Rightarrow> (fetch_error + bytes) outcome \<times> fetch_event list" where
  "match_sidecars d meta i [] = (Returns (Inl errSidecarNotFound), [])"
| "match_sidecars d meta i (sidecar # rest) =
     (case kzg4844_Commitment (FromHex d (KzgCommitment sidecar)) of
        None \<Rightarrow> (Panics, [Log_Block_sidecar i (KzgCommitment sidecar) (BlobHash meta)])
      | Some commitment \<Rightarrow>
          if CalcBlobHashV1 (Sha256 d) commitment = BlobHash meta
          then (decoded_from d sidecar,
                [Log_Block_sidecar i (KzgCommitment sidecar) (BlobHash meta)])
          else (case match_sidecars d meta (Suc i) rest of
                  (r, tr) \<Rightarrow>
                    (r, Log_Block_sidecar i (KzgCommitment sidecar) (BlobHash meta) # tr)))"

text \<open>
  \<open>BlobFetcher.Fetch\<close>. The context only reaches \<open>GetBlobs\<close> and the transaction
  argument is ignored by the source. \<open>meta.L1Height+1\<close> is \<open>uint64\<close> arithmetic.
\<close>

definition Fetch ::
  "BlobFetcher \<Rightarrow> TaikoDataBlockMetadata
    \<Rightarrow> (fetch_error + bytes) outcome \<times> fetch_event list" where
  "Fetch d meta =
     (if \<not> BlobUsed meta then (Returns (Inl errBlobUnused), [])
      else
        (case GetBlobs d (uint (L1Height meta + 1)) of
           Inl err \<Rightarrow>
             (Returns (Inl (Propagated err)), [GetBlobs_call (uint (L1Height meta + 1))])
         | Inr sidecars \<Rightarrow>
             (case match_sidecars d meta 0 sidecars of
                (r, tr) \<Rightarrow>
                  (r, GetBlobs_call (uint (L1Height meta + 1))
                      # Log_Fetch_sidecars (L1Height meta + 1) (length sidecars) # tr))))"

text \<open>
  The blob hash the loop computes of one sidecar: none when the conversion of its
  commitment panics.
\<close>

definition blob_hash_of :: "BlobFetcher \<Rightarrow> Sidecar \<Rightarrow> hash option" where
  "blob_hash_of d s =
     map_option (CalcBlobHashV1 (Sha256 d)) (kzg4844_Commitment (FromHex d (KzgCommitment s)))"

section \<open>prover/proof\_submitter: the proof contester\<close>

text \<open>
  The structs the contester handles. A field is named after its struct, since several
  structs have a \<open>Tier\<close>, a \<open>ParentHash\<close> or a \<open>StateRoot\<close>.
  \<^item> \<open>TransitionState\<close> is what \<open>TaikoL1.GetTransition\<close> returns; the source reads
    its contester and its tier.
  \<^item> \<open>Header\<close> is go-ethereum's \<open>types.Header\<close>; the source reads the parent hash
    and the state root and asks for the header's hash, which depends on every field.
\<close>

record TransitionState =
  TransitionState_Contester :: address
  TransitionState_Tier :: "16 word"

record Header =
  Header_ParentHash :: hash
  Header_Root :: hash
  Header_other_fields :: bytes

record ProofRequestOptions =
  Opts_EventL1Hash :: hash
  Opts_StateRoot :: hash

record ProofWithHeader =
  PWH_BlockID :: int
  PWH_Meta :: TaikoDataBlockMetadata
  PWH_Header :: Header
  PWH_Proof :: bytes
  PWH_Opts :: ProofRequestOptions
  PWH_Tier :: "16 word"

record TaikoDataTransition =
  Transition_ParentHash :: hash
  Transition_BlockHash :: hash
  Transition_StateRoot :: hash
  Transition_Graffiti :: hash

record TaikoDataTierProof =
  TierProof_Tier :: "16 word"
  TierProof_Data :: bytes

text \<open>
  \<open>txBuilder.Build(blockID, meta, transition, tierProof, flag)\<close> returns a closure over
  its five arguments; the closure is the value \<open>Build\<close> of those arguments.
\<close>

datatype TxBuilder =
  Build int TaikoDataBlockMetadata TaikoDataTransition TaikoDataTierProof bool

fun Build_flag :: "TxBuilder \<Rightarrow> bool" where
  "Build_flag (Build blockID meta transition tierProof flag) = flag"

fun Build_tierProof :: "TxBuilder \<Rightarrow> TaikoDataTierProof" where
  "Build_tierProof (Build blockID meta transition tierProof flag) = tierProof"

fun Build_transition :: "TxBuilder \<Rightarrow> TaikoDataTransition" where
  "Build_transition (Build blockID meta transition tierProof flag) = transition"

text \<open>
  What the contester and the submitter do that can be observed: the reads, the log lines
  (by their message), the construction of a transaction and its submission.
\<close>

datatype submit_event =
    GetTransition_call "64 word" hash
  | L2_HeaderByNumber_call int
  | L1_HeaderByNumber_call int
  | Log_Warn string
  | Log_Info string
  | GetBlockMetadata_call int
  | Build_call TxBuilder
  | Send_call ProofWithHeader TxBuilder

fun built :: "submit_event list \<Rightarrow> TxBuilder list" where
  "built [] = []"
| "built (Build_call tx # es) = tx # built es"
| "built (e # es) = built es"

fun sent :: "submit_event list \<Rightarrow> (ProofWithHeader \<times> TxBuilder) list" where
  "sent [] = []"
| "sent (Send_call p tx # es) = (p, tx) # sent es"
| "sent (e # es) = sent es"

text \<open>
  The contester and its collaborators. \<open>'w\<close> is the state of the two chains: the reads
  depend on it and a submission changes it. None of the collaborators is part of the
  file:
  \<^item> \<open>GetTransition\<close>, \<open>L2_HeaderByNumber\<close>, \<open>L1_HeaderByNumber\<close> are the three RPC
    reads of \<open>c.rpc\<close>;
  \<^item> \<open>Header_Hash\<close> is \<open>types.Header.Hash()\<close>;
  \<^item> \<open>TryParsingCustomError\<close> is the function of \<open>bindings/encoding\<close>, here on the
    errors that are not nil (a nil error has nothing to parse and stays nil);
  \<^item> \<open>Send\<close> is \<open>c.sender.Send(ctx, proofWithHeader, txBuilder)\<close>.
\<close>

record 'w ProofContester =
  GetTransition :: "'w \<Rightarrow> 64 word \<Rightarrow> hash \<Rightarrow> go_error + TransitionState"
  L2_HeaderByNumber :: "'w \<Rightarrow> int \<Rightarrow> go_error + Header"
  L1_HeaderByNumber :: "'w \<Rightarrow> int \<Rightarrow> go_error + Header"
  Header_Hash :: "Header \<Rightarrow> hash"
  TryParsingCustomError :: "go_error \<Rightarrow> go_error"
  Send :: "'w \<Rightarrow> ProofWithHeader \<Rightarrow> TxBuilder \<Rightarrow> go_error option \<times> 'w"
  graffiti :: hash

text \<open>\<open>(*big.Int).Uint64()\<close>: the low 64 bits of the magnitude.\<close>

definition Uint64 :: "int \<Rightarrow> 64 word" where
  "Uint64 x = word_of_int \<bar>x\<bar>"

text \<open>\<open>strings.Contains(s, substr)\<close>: \<open>substr\<close> starts at some position of \<open>s\<close>.\<close>

fun strings_Contains :: "string \<Rightarrow> string \<Rightarrow> bool" where
  "strings_Contains [] substr = (substr = [])"
| "strings_Contains (c # cs) substr = (prefix substr (c # cs) \<or> strings_Contains cs substr)"

text \<open>
  \<open>ProofContester.SubmitContest\<close>: the error returned (\<open>None\<close> is nil), the events in
  program order and the state of the chains afterwards. The arguments of \<open>Send\<close> are
  evaluated left to right, so the transaction is built before it is sent.
\<close>

definition SubmitContest ::
  "'w ProofContester \<Rightarrow> 'w \<Rightarrow> int \<Rightarrow> int \<Rightarrow> hash \<Rightarrow> TaikoDataBlockMetadata \<Rightarrow> 16 word
    \<Rightarrow> go_error option \<times> submit_event list \<times> 'w" where
  "SubmitContest c w blockID proposedIn parentHash meta tier =
     (case GetTransition c w (Uint64 blockID) parentHash of
        Inl err \<Rightarrow>
          if \<not> strings_Contains (Error_string (TryParsingCustomError c err)) ''L1_''
          then (None,
                [GetTransition_call (Uint64 blockID) parentHash,
                 Log_Warn ''Failed to get transition''], w)
          else (Some err, [GetTransition_call (Uint64 blockID) parentHash], w)
      | Inr transition \<Rightarrow>
          if TransitionState_Contester transition \<noteq> 0
          then (None,
                [GetTransition_call (Uint64 blockID) parentHash,
                 Log_Info ''Transaction has already been contested''], w)
          else
            (case L2_HeaderByNumber c w blockID of
               Inl err \<Rightarrow>
                 (Some err,
                  [GetTransition_call (Uint64 blockID) parentHash,
                   L2_HeaderByNumber_call blockID], w)
             | Inr header \<Rightarrow>
                 (case L1_HeaderByNumber c w proposedIn of
                    Inl err \<Rightarrow>
                      (Some err,
                       [GetTransition_call (Uint64 blockID) parentHash,
                        L2_HeaderByNumber_call blockID,
                        L1_HeaderByNumber_call proposedIn], w)
                  | Inr l1HeaderProposedIn \<Rightarrow>
                      (let proofWithHeader =
                             \<lparr>PWH_BlockID = blockID,
                              PWH_Meta = meta,
                              PWH_Header = header,
                              PWH_Proof = [],
                              PWH_Opts =
                                \<lparr>Opts_EventL1Hash = Header_Hash c l1HeaderProposedIn,
                                 Opts_StateRoot = Header_Root header\<rparr>,
                              PWH_Tier = tier\<rparr>;
                           tx =
                             Build blockID meta
                               \<lparr>Transition_ParentHash = Header_ParentHash header,
                                Transition_BlockHash = Header_Hash c header,
                                Transition_StateRoot = Header_Root header,
                                Transition_Graffiti = graffiti c\<rparr>
                               \<lparr>TierProof_Tier = TransitionState_Tier transition,
                                TierProof_Data = []\<rparr>
                               False
                       in (case Send c w proofWithHeader tx of
                             (err, w') \<Rightarrow>
                               (map_option (TryParsingCustomError c) err,
                                [GetTransition_call (Uint64 blockID) parentHash,
                                 L2_HeaderByNumber_call blockID,
                                 L1_HeaderByNumber_call proposedIn,
                                 Build_call tx,
                                 Send_call proofWithHeader tx], w'))))))"

text \<open>
  Calling \<open>SubmitContest\<close> twice in succession with the same arguments: the second call
  starts in the state the first one left. The result is the two event lists and the
  final state.
\<close>

definition SubmitContest_twice ::
  "'w ProofContester \<Rightarrow> 'w \<Rightarrow> int \<Rightarrow> int \<Rightarrow> hash \<Rightarrow> TaikoDataBlockMetadata \<Rightarrow> 16 word
    \<Rightarrow> submit_event list \<times> submit_event list \<times> 'w" where
  "SubmitContest_twice c w blockID proposedIn parentHash meta tier =
     (case SubmitContest c w blockID proposedIn parentHash meta tier of
        (err1, tr1, w1) \<Rightarrow>
          (case SubmitContest c w1 blockID proposedIn parentHash meta tier of
             (err2, tr2, w2) \<Rightarrow> (tr1, tr2, w2)))"


section \<open>prover/proof\_submitter: the proof submitter\<close>

text \<open>
  Modelled from the spec: the collaborators of \<open>ProofSubmitter\<close>, whose file
  (\<open>proof_submitter.go\<close>) is not among the sources; only its test is.
  \<open>PS_OnChainMetadata w id\<close> is every metadata the chain has recorded for block
  \<open>id\<close> (none when the block was never proposed), \<open>PS_errMetadataNotFound\<close> is the
  error of a lookup that finds no stored metadata equal to the one handed in, and
  \<open>PS_Send\<close> is the transaction sender.
\<close>

record 'w ProofSubmitter =
  PS_OnChainMetadata :: "'w \<Rightarrow> int \<Rightarrow> TaikoDataBlockMetadata list"
  PS_errMetadataNotFound :: go_error
  PS_Header_Hash :: "Header \<Rightarrow> hash"
  PS_Send :: "'w \<Rightarrow> ProofWithHeader \<Rightarrow> TxBuilder \<Rightarrow> go_error option \<times> 'w"
  PS_graffiti :: hash

text \<open>
  Modelled from the spec: \<open>ProofSubmitter.SubmitProof\<close>, which is missing from the
  sources. The spec, section 4.3: it re-reads the block's on-chain metadata by block id;
  it fails if the metadata cannot be found (the block was never proposed, or was proposed
  under different parameters, detected by comparing the stored metadata fields); it
  builds the prove transaction (graffiti-tagged, tier and proof bytes taken from the
  input) and submits it through the transaction sender, whose errors always propagate.
\<close>

definition SubmitProof ::
  "'w ProofSubmitter \<Rightarrow> 'w \<Rightarrow> ProofWithHeader \<Rightarrow> go_error option \<times> submit_event list \<times> 'w" where
  "SubmitProof s w proofWithHeader =
     (if PWH_Meta proofWithHeader
           \<in> set (PS_OnChainMetadata s w (PWH_BlockID proofWithHeader))
      then
        (let tx =
               Build (PWH_BlockID proofWithHeader) (PWH_Meta proofWithHeader)
                 \<lparr>Transition_ParentHash = Header_ParentHash (PWH_Header proofWithHeader),
                  Transition_BlockHash = PS_Header_Hash s (PWH_Header proofWithHeader),
                  Transition_StateRoot = Header_Root (PWH_Header proofWithHeader),
                  Transition_Graffiti = PS_graffiti s\<rparr>
                 \<lparr>TierProof_Tier = PWH_Tier proofWithHeader,
                  TierProof_Data = PWH_Proof proofWithHeader\<rparr>
                 False
         in (case PS_Send s w proofWithHeader tx of
               (err, w') \<Rightarrow>
                 (err,
                  [GetBlockMetadata_call (PWH_BlockID proofWithHeader),
                   Build_call tx,
                   Send_call proofWithHeader tx], w')))
      else
        (Some (PS_errMetadataNotFound s),
         [GetBlockMetadata_call (PWH_BlockID proofWithHeader)], w))"

section \<open>Concrete instances\<close>

text \<open>
  Collaborators to run the functions on. The hex decoder does what \<open>common.FromHex\<close>
  does: it reads an optional \<open>0x\<close>, pads an odd number of digits with a leading zero
  and stops at the first character that is not a hex digit. The digest stands for
  SHA-256 and reads the bytes as one big-endian number; the blob decoder stands for
  \<open>rpc.Blob.ToData\<close>, refuses an empty blob and returns any other as it is.
\<close>

definition hex_digit :: "char \<Rightarrow> nat option" where
  "hex_digit c =
     (let n = (of_char c :: nat) in
      if 48 \<le> n \<and> n \<le> 57 then Some (n - 48)
      else if 97 \<le> n \<and> n \<le> 102 then Some (n - 87)
      else if 65 \<le> n \<and> n \<le> 70 then Some (n - 55)
      else None)"

fun hex_pairs :: "string \<Rightarrow> bytes" where
  "hex_pairs (a # b # rest) =
     (case (hex_digit a, hex_digit b) of
        (Some x, Some y) \<Rightarrow> of_nat (16 * x + y) # hex_pairs rest
      | _ \<Rightarrow> [])"
| "hex_pairs rest = []"

definition hex_bytes :: "string \<Rightarrow> bytes" where
  "hex_bytes s =
     (let s1 = (if prefix ''0x'' s \<or> prefix ''0X'' s then drop 2 s else s);
          s2 = (if odd (length s1) then CHR ''0'' # s1 else s1)
      in hex_pairs s2)"

definition big_endian :: "bytes \<Rightarrow> hash" where
  "big_endian b = foldl (\<lambda>h x. h * 256 + ucast x) 0 b"

definition plain_blob :: "bytes \<Rightarrow> (go_error + bytes) outcome" where
  "plain_blob b =
     (if b = [] then Returns (Inl (Error ''invalid blob encoding'')) else Returns (Inr b))"

text \<open>
  Three commitments: \<open>commitment_A\<close> and \<open>commitment_B\<close> are 48 bytes long,
  \<open>commitment_short\<close> is one byte long.
\<close>

definition commitment_A :: string where
  "commitment_A =
     ''0xa1a1a1a1a1a1a1a1a1a1a1a1a1a1a1a1a1a1a1a1a1a1a1a1a1a1a1a1a1a1a1a1a1a1a1a1a1a1a1a1a1a1a1a1a1a1a1a1''"

definition commitment_B :: string where
  "commitment_B =
     ''0xb2b2b2b2b2b2b2b2b2b2b2b2b2b2b2b2b2b2b2b2b2b2b2b2b2b2b2b2b2b2b2b2b2b2b2b2b2b2b2b2b2b2b2b2b2b2b2b2''"

definition commitment_short :: string where
  "commitment_short = ''0x00''"

definition beacon_with :: "Sidecar list \<Rightarrow> BlobFetcher" where
  "beacon_with sidecars =
     \<lparr>GetBlobs = (\<lambda>slot. if slot = 101 then Inr sidecars else Inl (Error ''no such slot'')),
      FromHex = hex_bytes,
      Sha256 = big_endian,
      Blob_ToData = plain_blob\<rparr>"

text \<open>The metadata of a block proposed at L1 height 100 whose blob has commitment B.\<close>

definition meta_B :: TaikoDataBlockMetadata where
  "meta_B =
     \<lparr>L1Height = 100,
      BlobHash = CalcBlobHashV1 big_endian (hex_bytes commitment_B),
      BlobUsed = True\<rparr>"

definition sidecars_ABB :: "Sidecar list" where
  "sidecars_ABB =
     [\<lparr>KzgCommitment = commitment_A, Blob = ''0x0a''\<rparr>,
      \<lparr>KzgCommitment = commitment_B, Blob = ''0x0b''\<rparr>,
      \<lparr>KzgCommitment = commitment_B, Blob = ''0x0c''\<rparr>]"



definition sidecars_short :: "Sidecar list" where
  "sidecars_short = [\<lparr>KzgCommitment = commitment_short, Blob = ''0x0a''\<rparr>]"

text \<open>
  A chain with one transition, at block 7 under parent hash 1, whose state is the
  contester recorded for it. Reading another block's transition fails with a contract
  error for block 8 and with a transport error otherwise. A submission succeeds and
  records the sender as the contester.
\<close>

definition chain_contester :: "address ProofContester" where
  "chain_contester =
     \<lparr>GetTransition =
        (\<lambda>w blockID parentHash.
           if blockID = 7 \<and> parentHash = 1
           then Inr \<lparr>TransitionState_Contester = w, TransitionState_Tier = 200\<rparr>
           else if blockID = 8 then Inl (Error ''L1_TRANSITION_NOT_FOUND'')
           else Inl (Error ''connection refused'')),
      L2_HeaderByNumber =
        (\<lambda>w n. Inr \<lparr>Header_ParentHash = 1, Header_Root = 2, Header_other_fields = []\<rparr>),
      L1_HeaderByNumber =
        (\<lambda>w n. Inr \<lparr>Header_ParentHash = 3, Header_Root = 4, Header_other_fields = []\<rparr>),
      Header_Hash = (\<lambda>h. Header_ParentHash h + Header_Root h),
      TryParsingCustomError = (\<lambda>e. e),
      Send = (\<lambda>w p tx. (None, 0xC0FFEE)),
      graffiti = 0x74657374\<rparr>"

text \<open>
  The same chain with a sender that keeps what it is handed: the state is the list of the
  submissions received so far, in order, and the transition of block 7 is contested as
  soon as that list is not empty.
\<close>

definition recording_contester :: "(ProofWithHeader \<times> TxBuilder) list ProofContester" where
  "recording_contester =
     \<lparr>GetTransition =
        (\<lambda>w blockID parentHash.
           if blockID = 7 \<and> parentHash = 1
           then Inr \<lparr>TransitionState_Contester = (if w = [] then 0 else 0xC0FFEE),
                     TransitionState_Tier = 200\<rparr>
           else Inl (Error ''L1_TRANSITION_NOT_FOUND'')),
      L2_HeaderByNumber =
        (\<lambda>w n. Inr \<lparr>Header_ParentHash = 1, Header_Root = 2, Header_other_fields = []\<rparr>),
      L1_HeaderByNumber =
        (\<lambda>w n. Inr \<lparr>Header_ParentHash = 3, Header_Root = 4, Header_other_fields = []\<rparr>),
      Header_Hash = (\<lambda>h. Header_ParentHash h + Header_Root h),
      TryParsingCustomError = (\<lambda>e. e),
      Send = (\<lambda>w p tx. (None, w @ [(p, tx)])),
      graffiti = 0x74657374\<rparr>"

text \<open>
  A sender that refuses a transaction built with the last argument of \<open>Build\<close> true and
  records any other.
\<close>

definition refusing_Send ::
  "(ProofWithHeader \<times> TxBuilder) list \<Rightarrow> ProofWithHeader \<Rightarrow> TxBuilder
    \<Rightarrow> go_error option \<times> (ProofWithHeader \<times> TxBuilder) list" where
  "refusing_Send w p tx =
     (if Build_flag tx then (Some (Error ''flag set''), w) else (None, w @ [(p, tx)]))"

text \<open>The submission and the transaction of the contest of block 7 with caller's tier 100.\<close>

definition contest_7_proof :: ProofWithHeader where
  "contest_7_proof =
     \<lparr>PWH_BlockID = 7, PWH_Meta = meta_B,
      PWH_Header = \<lparr>Header_ParentHash = 1, Header_Root = 2, Header_other_fields = []\<rparr>,
      PWH_Proof = [],
      PWH_Opts = \<lparr>Opts_EventL1Hash = 7, Opts_StateRoot = 2\<rparr>,
      PWH_Tier = 100\<rparr>"

definition contest_7_tx :: TxBuilder where
  "contest_7_tx =
     Build 7 meta_B
       \<lparr>Transition_ParentHash = 1, Transition_BlockHash = 3,
        Transition_StateRoot = 2, Transition_Graffiti = 0x74657374\<rparr>
       \<lparr>TierProof_Tier = 200, TierProof_Data = []\<rparr> False"

definition chain_submitter :: "address ProofSubmitter" where
  "chain_submitter =
     \<lparr>PS_OnChainMetadata = (\<lambda>w blockID. if blockID = 7 then [meta_B] else []),
      PS_errMetadataNotFound = Error ''metadata not found'',
      PS_Header_Hash = (\<lambda>h. Header_ParentHash h + Header_Root h),
      PS_Send = (\<lambda>w p tx. (None, w)),
      PS_graffiti = 0x74657374\<rparr>"

definition proof_256 :: ProofWithHeader where
  "proof_256 =
     \<lparr>PWH_BlockID = 256,
      PWH_Meta = \<lparr>L1Height = 0, BlobHash = 0, BlobUsed = False\<rparr>,
      PWH_Header = \<lparr>Header_ParentHash = 0, Header_Root = 0, Header_other_fields = []\<rparr>,
      PWH_Proof = replicate 100 0xff,
      PWH_Opts = \<lparr>Opts_EventL1Hash = 0, Opts_StateRoot = 0\<rparr>,
      PWH_Tier = 0\<rparr>"

section \<open>The blob fetcher: properties\<close>






subsection \<open>The concrete sidecars, evaluated\<close>



lemma hex_commitment_short: "hex_bytes commitment_short = [0]"
  by code_simp


lemma commitment_48:
  "kzg4844_Commitment (replicate 48 0xa1) = Some (replicate 48 0xa1)"
  "kzg4844_Commitment (replicate 48 0xb2) = Some (replicate 48 0xb2)"
  "kzg4844_Commitment [0] = None"
  by (simp_all add: kzg4844_Commitment_def)




lemma blob_hash_of_short:
  "blob_hash_of (beacon_with xs) \<lparr>KzgCommitment = commitment_short, Blob = b\<rparr> = None"
  by (simp add: blob_hash_of_def beacon_with_def hex_commitment_short commitment_48)


lemma slot_meta_B: "BlobUsed meta_B" "uint (L1Height meta_B + 1) = 101"
  by (simp_all add: meta_B_def)



subsection \<open>The claims about Fetch\<close>




text \<open>
  C5, at the input where the code departs from it: the only sidecar has a commitment of
  one byte, so no sidecar has a computed hash equal to \<open>meta.BlobHash\<close>, and \<open>Fetch\<close>
  panics in the conversion of line 54 instead of returning \<open>errSidecarNotFound\<close>.
\<close>

theorem Fetch_short_commitment_panics:
  "BlobUsed meta_B
   \<and> GetBlobs (beacon_with sidecars_short) (uint (L1Height meta_B + 1)) = Inr sidecars_short
   \<and> map (blob_hash_of (beacon_with sidecars_short)) sidecars_short = [None]
   \<and> fst (Fetch (beacon_with sidecars_short) meta_B) = Panics
   \<and> fst (Fetch (beacon_with sidecars_short) meta_B) \<noteq> Returns (Inl errSidecarNotFound)"
  by (simp add: Fetch_def slot_meta_B beacon_with_def sidecars_short_def
      hex_commitment_short commitment_48 blob_hash_of_def)

text \<open>
  C7: for every metadata whose \<open>BlobUsed\<close> flag is false, \<open>Fetch\<close> fails with
  \<open>errBlobUnused\<close>, which is not the sidecar-not-found error.
\<close>

theorem Fetch_blob_unused:
  assumes "\<not> BlobUsed meta"
  shows "fst (Fetch d meta) = Returns (Inl errBlobUnused)
         \<and> errBlobUnused \<noteq> errSidecarNotFound"
  using assms by (simp add: Fetch_def)

theorem Fetch_blob_unused_witness:
  "\<not> BlobUsed (meta_B\<lparr>BlobUsed := False\<rparr>)
   \<and> fst (Fetch (beacon_with sidecars_ABB) (meta_B\<lparr>BlobUsed := False\<rparr>))
       = Returns (Inl errBlobUnused)
   \<and> errBlobUnused \<noteq> errSidecarNotFound"
  using Fetch_blob_unused [of "meta_B\<lparr>BlobUsed := False\<rparr>" "beacon_with sidecars_ABB"]
  by simp

text \<open>
  C10: for every metadata whose \<open>BlobUsed\<close> flag is false, \<open>Fetch\<close> returns before any
  read: its list of events is empty, so \<open>GetBlobs\<close> is not called, and what it returns
  does not depend on what the beacon would have answered.
\<close>

theorem Fetch_blob_unused_no_read:
  assumes "\<not> BlobUsed meta"
  shows "snd (Fetch d meta) = []
         \<and> Fetch (d\<lparr>GetBlobs := g\<rparr>) meta = Fetch d meta"
  using assms by (simp add: Fetch_def)

theorem Fetch_blob_unused_no_read_witness:
  "\<not> BlobUsed (meta_B\<lparr>BlobUsed := False\<rparr>)
   \<and> snd (Fetch (beacon_with sidecars_ABB) (meta_B\<lparr>BlobUsed := False\<rparr>)) = []
   \<and> Fetch (beacon_with sidecars_ABB\<lparr>GetBlobs := (\<lambda>slot. Inl (Error ''unreachable''))\<rparr>)
         (meta_B\<lparr>BlobUsed := False\<rparr>)
       = Fetch (beacon_with sidecars_ABB) (meta_B\<lparr>BlobUsed := False\<rparr>)"
  using Fetch_blob_unused_no_read [of "meta_B\<lparr>BlobUsed := False\<rparr>" "beacon_with sidecars_ABB"
      "\<lambda>slot. Inl (Error ''unreachable'')"]
  by simp


section \<open>The proof contester: properties\<close>

lemma strings_Contains_sublist: "strings_Contains s substr \<longleftrightarrow> sublist substr s"
  by (induction s) (auto simp: sublist_Cons_right)

lemma SubmitContest_sends_at_most_once:
  "length (sent (fst (snd (SubmitContest c w blockID proposedIn parentHash meta tier)))) \<le> 1"
  by (simp add: SubmitContest_def Let_def split: sum.splits prod.splits)

subsection \<open>The concrete chain, evaluated\<close>

lemma chain_first_call:
  "SubmitContest chain_contester 0 7 5 1 meta_B 100 =
     (None,
      [GetTransition_call 7 1, L2_HeaderByNumber_call 7, L1_HeaderByNumber_call 5,
       Build_call
         (Build 7 meta_B
            \<lparr>Transition_ParentHash = 1, Transition_BlockHash = 3,
             Transition_StateRoot = 2, Transition_Graffiti = 0x74657374\<rparr>
            \<lparr>TierProof_Tier = 200, TierProof_Data = []\<rparr> False),
       Send_call
         \<lparr>PWH_BlockID = 7, PWH_Meta = meta_B,
          PWH_Header = \<lparr>Header_ParentHash = 1, Header_Root = 2, Header_other_fields = []\<rparr>,
          PWH_Proof = [],
          PWH_Opts = \<lparr>Opts_EventL1Hash = 7, Opts_StateRoot = 2\<rparr>,
          PWH_Tier = 100\<rparr>
         (Build 7 meta_B
            \<lparr>Transition_ParentHash = 1, Transition_BlockHash = 3,
             Transition_StateRoot = 2, Transition_Graffiti = 0x74657374\<rparr>
            \<lparr>TierProof_Tier = 200, TierProof_Data = []\<rparr> False)],
      0xC0FFEE)"
  by (simp add: SubmitContest_def chain_contester_def Uint64_def Let_def)

lemma chain_reads:
  "GetTransition chain_contester w (Uint64 7) 1 =
     Inr \<lparr>TransitionState_Contester = w, TransitionState_Tier = 200\<rparr>"
  "GetTransition chain_contester w (Uint64 8) 1 = Inl (Error ''L1_TRANSITION_NOT_FOUND'')"
  "GetTransition chain_contester w (Uint64 9) 1 = Inl (Error ''connection refused'')"
  "L2_HeaderByNumber chain_contester w 7 =
     Inr \<lparr>Header_ParentHash = 1, Header_Root = 2, Header_other_fields = []\<rparr>"
  "TryParsingCustomError chain_contester e = e"
  by (simp_all add: chain_contester_def Uint64_def)

lemma Contains_L1:
  "strings_Contains ''L1_TRANSITION_NOT_FOUND'' ''L1_''"
  "\<not> strings_Contains ''connection refused'' ''L1_''"
  by simp_all

lemma recording_reads:
  "GetTransition recording_contester [] (Uint64 7) 1 =
     Inr \<lparr>TransitionState_Contester = 0, TransitionState_Tier = 200\<rparr>"
  "L2_HeaderByNumber recording_contester w 7 =
     Inr \<lparr>Header_ParentHash = 1, Header_Root = 2, Header_other_fields = []\<rparr>"
  "L1_HeaderByNumber recording_contester w 5 =
     Inr \<lparr>Header_ParentHash = 3, Header_Root = 4, Header_other_fields = []\<rparr>"
  by (simp_all add: recording_contester_def Uint64_def)

lemma recording_parts:
  "Header_Hash recording_contester h = Header_ParentHash h + Header_Root h"
  "TryParsingCustomError recording_contester e = e"
  "Send recording_contester w p tx = (None, w @ [(p, tx)])"
  "graffiti recording_contester = 0x74657374"
  by (simp_all add: recording_contester_def)

lemma recording_first_call:
  "SubmitContest recording_contester [] 7 5 1 meta_B 100 =
     (None,
      [GetTransition_call 7 1, L2_HeaderByNumber_call 7, L1_HeaderByNumber_call 5,
       Build_call contest_7_tx, Send_call contest_7_proof contest_7_tx],
      [(contest_7_proof, contest_7_tx)])"
  by (simp add: SubmitContest_def recording_contester_def Uint64_def Let_def
      contest_7_tx_def contest_7_proof_def)

lemma SubmitContest_sends_iff:
  "sent (fst (snd (SubmitContest c w blockID proposedIn parentHash meta tier))) \<noteq> [] \<longleftrightarrow>
     (\<exists>transition header l1HeaderProposedIn.
        GetTransition c w (Uint64 blockID) parentHash = Inr transition
      \<and> TransitionState_Contester transition = 0
      \<and> L2_HeaderByNumber c w blockID = Inr header
      \<and> L1_HeaderByNumber c w proposedIn = Inr l1HeaderProposedIn)"
  by (auto simp: SubmitContest_def Let_def split: sum.splits prod.splits)

text \<open>
  C2: for every block id and parent hash whose on-chain transition has a contester that
  is not the zero address, \<open>SubmitContest\<close> returns nil, builds nothing, sends nothing
  and leaves the chain as it was. So when a first call leaves the chain in such a
  state, the second of two calls in succession is that no-op, and the two calls
  together submit what the first one did, at most one transaction.
\<close>

theorem SubmitContest_already_contested:
  assumes "GetTransition c w (Uint64 blockID) parentHash = Inr transition"
    and "TransitionState_Contester transition \<noteq> 0"
  shows "SubmitContest c w blockID proposedIn parentHash meta tier =
           (None,
            [GetTransition_call (Uint64 blockID) parentHash,
             Log_Info ''Transaction has already been contested''], w)
         \<and> built (fst (snd (SubmitContest c w blockID proposedIn parentHash meta tier))) = []
         \<and> sent (fst (snd (SubmitContest c w blockID proposedIn parentHash meta tier))) = []
         \<and> (\<forall>w0 err1 tr1.
              SubmitContest c w0 blockID proposedIn parentHash meta tier = (err1, tr1, w) \<longrightarrow>
                (\<exists>tr2. SubmitContest_twice c w0 blockID proposedIn parentHash meta tier
                         = (tr1, tr2, w)
                       \<and> sent (tr1 @ tr2) = sent tr1
                       \<and> length (sent (tr1 @ tr2)) \<le> 1))"
proof -
  let ?noop = "[GetTransition_call (Uint64 blockID) parentHash,
                Log_Info ''Transaction has already been contested'']"
  have second: "SubmitContest c w blockID proposedIn parentHash meta tier = (None, ?noop, w)"
    using assms by (simp add: SubmitContest_def)
  have append: "sent (tr @ ?noop) = sent tr" for tr
    by (induction tr rule: sent.induct) simp_all
  have twice: "\<exists>tr2. SubmitContest_twice c w0 blockID proposedIn parentHash meta tier
                       = (tr1, tr2, w)
                     \<and> sent (tr1 @ tr2) = sent tr1
                     \<and> length (sent (tr1 @ tr2)) \<le> 1"
    if first: "SubmitContest c w0 blockID proposedIn parentHash meta tier = (err1, tr1, w)"
    for w0 err1 tr1
  proof -
    have "SubmitContest_twice c w0 blockID proposedIn parentHash meta tier = (tr1, ?noop, w)"
      by (simp add: SubmitContest_twice_def first second)
    moreover have "length (sent tr1) \<le> 1"
      using SubmitContest_sends_at_most_once [of c w0 blockID proposedIn parentHash meta tier]
      by (simp add: first)
    ultimately show ?thesis
      using append by auto
  qed
  from second twice show ?thesis
    by simp
qed


theorem SubmitContest_already_contested_witness:
  "GetTransition chain_contester 0xC0FFEE (Uint64 7) 1 =
     Inr \<lparr>TransitionState_Contester = 0xC0FFEE, TransitionState_Tier = 200\<rparr>
   \<and> TransitionState_Contester
         \<lparr>TransitionState_Contester = 0xC0FFEE, TransitionState_Tier = 200\<rparr> \<noteq> 0
   \<and> SubmitContest chain_contester 0xC0FFEE 7 5 1 meta_B 100 =
       (None,
        [GetTransition_call 7 1, Log_Info ''Transaction has already been contested''],
        0xC0FFEE)
   \<and> snd (snd (SubmitContest chain_contester 0 7 5 1 meta_B 100)) = 0xC0FFEE
   \<and> length (sent (fst (snd (SubmitContest chain_contester 0 7 5 1 meta_B 100)))) = 1
   \<and> (\<exists>tr1 tr2. SubmitContest_twice chain_contester 0 7 5 1 meta_B 100 = (tr1, tr2, 0xC0FFEE)
                 \<and> length (sent (tr1 @ tr2)) = 1)"
proof -
  let ?t = "\<lparr>TransitionState_Contester = 0xC0FFEE, TransitionState_Tier = 200\<rparr>"
  have read: "GetTransition chain_contester 0xC0FFEE (Uint64 7) 1 = Inr ?t"
    by (rule chain_reads)
  have contested: "TransitionState_Contester ?t \<noteq> 0"
    by simp
  note noop = SubmitContest_already_contested [OF read contested, of 5 meta_B 100]
  have key: "Uint64 7 = 7"
    by (simp add: Uint64_def)
  from noop have second: "SubmitContest chain_contester 0xC0FFEE 7 5 1 meta_B 100 =
       (None,
        [GetTransition_call 7 1, Log_Info ''Transaction has already been contested''],
        0xC0FFEE)"
    by (simp add: key)
  from noop chain_first_call
  obtain tr2 where twice:
    "SubmitContest_twice chain_contester 0 7 5 1 meta_B 100
       = (fst (snd (SubmitContest chain_contester 0 7 5 1 meta_B 100)), tr2, 0xC0FFEE)"
    "sent (fst (snd (SubmitContest chain_contester 0 7 5 1 meta_B 100)) @ tr2)
       = sent (fst (snd (SubmitContest chain_contester 0 7 5 1 meta_B 100)))"
    by (metis fst_conv snd_conv)
  have one: "length (sent (fst (snd (SubmitContest chain_contester 0 7 5 1 meta_B 100)))) = 1"
    by (simp add: chain_first_call)
  have state: "snd (snd (SubmitContest chain_contester 0 7 5 1 meta_B 100)) = 0xC0FFEE"
    by (simp add: chain_first_call)
  from twice one have "\<exists>tr1 tr2.
      SubmitContest_twice chain_contester 0 7 5 1 meta_B 100 = (tr1, tr2, 0xC0FFEE)
      \<and> length (sent (tr1 @ tr2)) = 1"
    by metis
  with read contested second state one show ?thesis
    by blast
qed

text \<open>
  C3: on every path of \<open>SubmitContest\<close> that reaches the sender (the transition is read
  and not contested, both headers are read), the sender is called once, and the
  transaction it is handed is built from the block id and the metadata, from the parent
  hash, the hash and the state root of the L2 header just read, from the contester's
  graffiti, and from a tier proof with the tier of the on-chain transition and empty
  data. The \<open>tier\<close> the caller supplies goes into the submission record only, not into the
  tier proof. What \<open>SubmitContest\<close> returns is the sender's answer to exactly that call,
  whatever the sender is.
\<close>

theorem SubmitContest_transaction:
  assumes "GetTransition c w (Uint64 blockID) parentHash = Inr transition"
    and "TransitionState_Contester transition = 0"
    and "L2_HeaderByNumber c w blockID = Inr header"
    and "L1_HeaderByNumber c w proposedIn = Inr l1HeaderProposedIn"
  shows "(let tx =
                Build blockID meta
                  \<lparr>Transition_ParentHash = Header_ParentHash header,
                   Transition_BlockHash = Header_Hash c header,
                   Transition_StateRoot = Header_Root header,
                   Transition_Graffiti = graffiti c\<rparr>
                  \<lparr>TierProof_Tier = TransitionState_Tier transition,
                   TierProof_Data = []\<rparr>
                  False;
              proofWithHeader =
                \<lparr>PWH_BlockID = blockID,
                 PWH_Meta = meta,
                 PWH_Header = header,
                 PWH_Proof = [],
                 PWH_Opts =
                   \<lparr>Opts_EventL1Hash = Header_Hash c l1HeaderProposedIn,
                    Opts_StateRoot = Header_Root header\<rparr>,
                 PWH_Tier = tier\<rparr>
          in SubmitContest c w blockID proposedIn parentHash meta tier =
               (map_option (TryParsingCustomError c) (fst (Send c w proofWithHeader tx)),
                [GetTransition_call (Uint64 blockID) parentHash,
                 L2_HeaderByNumber_call blockID,
                 L1_HeaderByNumber_call proposedIn,
                 Build_call tx,
                 Send_call proofWithHeader tx],
                snd (Send c w proofWithHeader tx)))"
  using assms
  by (simp add: SubmitContest_def Let_def case_prod_unfold)

theorem SubmitContest_transaction_witness:
  "GetTransition recording_contester [] (Uint64 7) 1
     = Inr \<lparr>TransitionState_Contester = 0, TransitionState_Tier = 200\<rparr>
   \<and> TransitionState_Contester
         \<lparr>TransitionState_Contester = 0, TransitionState_Tier = 200\<rparr> = 0
   \<and> L2_HeaderByNumber recording_contester [] 7
       = Inr \<lparr>Header_ParentHash = 1, Header_Root = 2, Header_other_fields = []\<rparr>
   \<and> L1_HeaderByNumber recording_contester [] 5
       = Inr \<lparr>Header_ParentHash = 3, Header_Root = 4, Header_other_fields = []\<rparr>
   \<and> SubmitContest recording_contester [] 7 5 1 meta_B 100 =
       (None,
        [GetTransition_call 7 1, L2_HeaderByNumber_call 7, L1_HeaderByNumber_call 5,
         Build_call contest_7_tx, Send_call contest_7_proof contest_7_tx],
        [(contest_7_proof, contest_7_tx)])
   \<and> snd (snd (SubmitContest recording_contester [] 7 5 1 meta_B 999)) =
       [(contest_7_proof\<lparr>PWH_Tier := 999\<rparr>, contest_7_tx)]
   \<and> TierProof_Tier (Build_tierProof contest_7_tx) = 200"
proof -
  let ?t = "\<lparr>TransitionState_Contester = 0, TransitionState_Tier = 200\<rparr>"
  have read: "GetTransition recording_contester [] (Uint64 7) 1 = Inr ?t"
    by (rule recording_reads)
  have open_: "TransitionState_Contester ?t = 0"
    by simp
  have l2: "L2_HeaderByNumber recording_contester [] 7
       = Inr \<lparr>Header_ParentHash = 1, Header_Root = 2, Header_other_fields = []\<rparr>"
    by (rule recording_reads)
  have l1: "L1_HeaderByNumber recording_contester [] 5
       = Inr \<lparr>Header_ParentHash = 3, Header_Root = 4, Header_other_fields = []\<rparr>"
    by (rule recording_reads)
  have key: "Uint64 7 = 7"
    by (simp add: Uint64_def)
  have first: "SubmitContest recording_contester [] 7 5 1 meta_B 100 =
       (None,
        [GetTransition_call 7 1, L2_HeaderByNumber_call 7, L1_HeaderByNumber_call 5,
         Build_call contest_7_tx, Send_call contest_7_proof contest_7_tx],
        [(contest_7_proof, contest_7_tx)])"
    using SubmitContest_transaction [OF read open_ l2 l1, of meta_B 100]
    by (simp add: Let_def recording_parts key contest_7_tx_def contest_7_proof_def)
  have other: "snd (snd (SubmitContest recording_contester [] 7 5 1 meta_B 999)) =
       [(contest_7_proof\<lparr>PWH_Tier := 999\<rparr>, contest_7_tx)]"
    using SubmitContest_transaction [OF read open_ l2 l1, of meta_B 999]
    by (simp add: Let_def recording_parts key contest_7_tx_def contest_7_proof_def)
  have tier: "TierProof_Tier (Build_tierProof contest_7_tx) = 200"
    by (simp add: contest_7_tx_def)
  from read open_ l2 l1 first other tier show ?thesis
    by blast
qed

text \<open>
  C4: when the read of the transition fails, the error is classified by the message of
  its parsed form. Without the prefix \<open>L1_\<close> in the message, \<open>SubmitContest\<close> logs a
  warning and returns nil; with it, \<open>SubmitContest\<close> returns the error of the read.
  Nothing further is read, built or sent in either case.
\<close>

theorem SubmitContest_read_failure:
  assumes "GetTransition c w (Uint64 blockID) parentHash = Inl err"
  shows "SubmitContest c w blockID proposedIn parentHash meta tier =
           (if strings_Contains (Error_string (TryParsingCustomError c err)) ''L1_''
            then (Some err, [GetTransition_call (Uint64 blockID) parentHash], w)
            else (None,
                  [GetTransition_call (Uint64 blockID) parentHash,
                   Log_Warn ''Failed to get transition''], w))"
  using assms by (simp add: SubmitContest_def)

theorem SubmitContest_read_failure_witness:
  "GetTransition chain_contester 0 (Uint64 8) 1 = Inl (Error ''L1_TRANSITION_NOT_FOUND'')
   \<and> SubmitContest chain_contester 0 8 5 1 meta_B 100 =
       (Some (Error ''L1_TRANSITION_NOT_FOUND''), [GetTransition_call 8 1], 0)
   \<and> GetTransition chain_contester 0 (Uint64 9) 1 = Inl (Error ''connection refused'')
   \<and> SubmitContest chain_contester 0 9 5 1 meta_B 100 =
       (None, [GetTransition_call 9 1, Log_Warn ''Failed to get transition''], 0)"
proof -
  have r8: "GetTransition chain_contester 0 (Uint64 8) 1 = Inl (Error ''L1_TRANSITION_NOT_FOUND'')"
    by (rule chain_reads)
  have r9: "GetTransition chain_contester 0 (Uint64 9) 1 = Inl (Error ''connection refused'')"
    by (rule chain_reads)
  have k: "Uint64 8 = 8" "Uint64 9 = 9"
    by (simp_all add: Uint64_def)
  have c8: "SubmitContest chain_contester 0 8 5 1 meta_B 100 =
       (Some (Error ''L1_TRANSITION_NOT_FOUND''), [GetTransition_call 8 1], 0)"
    using SubmitContest_read_failure [OF r8, of 5 meta_B 100] Contains_L1
    by (simp add: chain_reads(5) k)
  have c9: "SubmitContest chain_contester 0 9 5 1 meta_B 100 =
       (None, [GetTransition_call 9 1, Log_Warn ''Failed to get transition''], 0)"
    using SubmitContest_read_failure [OF r9, of 5 meta_B 100] Contains_L1
    by (simp add: chain_reads(5) k)
  from r8 c8 r9 c9 show ?thesis
    by blast
qed

text \<open>
  C6, as amended: the transaction that \<open>SubmitContest\<close> hands to the sender is built
  with the last argument of \<open>Build\<close> false, on every path. So a sender \<open>s\<close> that does
  what the contester's sender does on every transaction built with that argument false
  can take its place without any change to what \<open>SubmitContest\<close> returns, logs and
  leaves behind, however \<open>s\<close> treats a transaction built with the argument true; and
  every transaction built has the argument false.
\<close>

theorem SubmitContest_Build_flag:
  assumes "\<forall>w p tx. \<not> Build_flag tx \<longrightarrow> s w p tx = Send c w p tx"
  shows "SubmitContest (c\<lparr>Send := s\<rparr>) w blockID proposedIn parentHash meta tier
           = SubmitContest c w blockID proposedIn parentHash meta tier
         \<and> (\<forall>tx\<in>set (built (fst (snd (SubmitContest c w blockID proposedIn parentHash meta tier)))).
              Build_flag tx = False)"
proof
  show "SubmitContest (c\<lparr>Send := s\<rparr>) w blockID proposedIn parentHash meta tier
           = SubmitContest c w blockID proposedIn parentHash meta tier"
    using assms
    by (simp add: SubmitContest_def Let_def split: sum.splits)
  show "\<forall>tx\<in>set (built (fst (snd (SubmitContest c w blockID proposedIn parentHash meta tier)))).
          Build_flag tx = False"
    by (auto simp: SubmitContest_def Let_def split: sum.splits if_splits prod.splits)
qed

theorem SubmitContest_Build_flag_witness:
  "refusing_Send [] contest_7_proof contest_7_tx
     = Send recording_contester [] contest_7_proof contest_7_tx
   \<and> SubmitContest (recording_contester\<lparr>Send := refusing_Send\<rparr>) [] 7 5 1 meta_B 100
       = SubmitContest recording_contester [] 7 5 1 meta_B 100
   \<and> SubmitContest (recording_contester\<lparr>Send := refusing_Send\<rparr>) [] 7 5 1 meta_B 100 =
       (None,
        [GetTransition_call 7 1, L2_HeaderByNumber_call 7, L1_HeaderByNumber_call 5,
         Build_call contest_7_tx, Send_call contest_7_proof contest_7_tx],
        [(contest_7_proof, contest_7_tx)])
   \<and> contest_7_tx \<in> set (built (fst (snd (SubmitContest recording_contester [] 7 5 1 meta_B 100))))
   \<and> Build_flag contest_7_tx = False"
proof -
  have agree: "\<forall>w p tx. \<not> Build_flag tx \<longrightarrow> refusing_Send w p tx = Send recording_contester w p tx"
    by (simp add: refusing_Send_def recording_parts)
  have here: "refusing_Send [] contest_7_proof contest_7_tx
     = Send recording_contester [] contest_7_proof contest_7_tx"
    by (simp add: refusing_Send_def recording_parts contest_7_tx_def)
  note flag = SubmitContest_Build_flag [OF agree, of "[]" 7 5 1 meta_B 100]
  from flag have same:
    "SubmitContest (recording_contester\<lparr>Send := refusing_Send\<rparr>) [] 7 5 1 meta_B 100
       = SubmitContest recording_contester [] 7 5 1 meta_B 100"
    by blast
  have mem: "contest_7_tx
      \<in> set (built (fst (snd (SubmitContest recording_contester [] 7 5 1 meta_B 100))))"
    by (simp add: recording_first_call)
  with flag have false: "Build_flag contest_7_tx = False"
    by blast
  from here same same [unfolded recording_first_call] mem false show ?thesis
    by blast
qed

text \<open>
  C6 as it is stated, with the last argument of \<open>Build\<close> true, fails on the contest of
  block 7: the one transaction the recording sender receives was built with the argument
  false, the sender that refuses the argument true accepts it, and the one call of
  \<open>Build\<close> has the argument false.
\<close>

theorem SubmitContest_Build_flag_counterexample:
  "map (\<lambda>received. Build_flag (snd received))
       (snd (snd (SubmitContest recording_contester [] 7 5 1 meta_B 100))) = [False]
   \<and> fst (SubmitContest (recording_contester\<lparr>Send := refusing_Send\<rparr>) [] 7 5 1 meta_B 100)
       = None
   \<and> map Build_flag (built (fst (snd (SubmitContest chain_contester 0 7 5 1 meta_B 100))))
       = [False]"
proof -
  have received: "map (\<lambda>received. Build_flag (snd received))
       (snd (snd (SubmitContest recording_contester [] 7 5 1 meta_B 100))) = [False]"
    by (simp add: recording_first_call contest_7_tx_def)
  have accepted:
    "fst (SubmitContest (recording_contester\<lparr>Send := refusing_Send\<rparr>) [] 7 5 1 meta_B 100)
       = None"
    by (simp add: SubmitContest_def recording_contester_def Uint64_def Let_def
        refusing_Send_def)
  have call: "map Build_flag (built (fst (snd (SubmitContest chain_contester 0 7 5 1 meta_B 100))))
       = [False]"
    by (simp add: chain_first_call)
  from received accepted call show ?thesis
    by blast
qed

section \<open>The proof submitter: properties\<close>

text \<open>
  C8: for every proof whose metadata is not among the metadata the chain has recorded
  for its block id, \<open>SubmitProof\<close> returns an error that is not nil, sends no
  transaction and leaves the chain as it was.
\<close>

theorem SubmitProof_metadata_not_found:
  assumes "PWH_Meta p \<notin> set (PS_OnChainMetadata s w (PWH_BlockID p))"
  shows "fst (SubmitProof s w p) \<noteq> None
         \<and> sent (fst (snd (SubmitProof s w p))) = []
         \<and> snd (snd (SubmitProof s w p)) = w"
  using assms by (simp add: SubmitProof_def)

theorem SubmitProof_metadata_not_found_witness:
  "PWH_Meta proof_256 \<notin> set (PS_OnChainMetadata chain_submitter 0 (PWH_BlockID proof_256))
   \<and> fst (SubmitProof chain_submitter 0 proof_256) = Some (Error ''metadata not found'')
   \<and> sent (fst (snd (SubmitProof chain_submitter 0 proof_256))) = []
   \<and> snd (snd (SubmitProof chain_submitter 0 proof_256)) = 0"
proof -
  have absent: "PWH_Meta proof_256
      \<notin> set (PS_OnChainMetadata chain_submitter 0 (PWH_BlockID proof_256))"
    by (simp add: proof_256_def chain_submitter_def)
  have "fst (SubmitProof chain_submitter 0 proof_256)
      = Some (PS_errMetadataNotFound chain_submitter)"
    using absent by (simp add: SubmitProof_def)
  then have err: "fst (SubmitProof chain_submitter 0 proof_256)
      = Some (Error ''metadata not found'')"
    by (simp add: chain_submitter_def)
  from absent err SubmitProof_metadata_not_found [OF absent] show ?thesis
    by blast
qed

end
